theory Spec2Isabelle
  imports Main
begin

section \<open>JavaScript values\<close>

text \<open>
  The controllers work on untyped request data, so the values of the model are JavaScript
  values. Numbers are integers here (a JSON body has no NaN, and only the test against zero
  matters for truthiness). \<open>Fn\<close> stands for a function or class object, named.
  An object is the list of its own properties.
\<close>

datatype jsval =
    Undefined
  | Null
  | Bool bool
  | Num int
  | Str string
  | Arr "jsval list"
  | Obj "(string \<times> jsval) list"
  | Fn string

datatype error =
    TypeError string
  | ReferenceError string
  | StoreError string

text \<open>What \<^verbatim>\<open>if (v)\<close> and \<^verbatim>\<open>!v\<close> test: every array and every object is truthy.\<close>

fun truthy :: "jsval \<Rightarrow> bool" where
  "truthy Undefined = False"
| "truthy Null = False"
| "truthy (Bool b) = b"
| "truthy (Num n) = (n \<noteq> 0)"
| "truthy (Str s) = (s \<noteq> [])"
| "truthy (Arr xs) = True"
| "truthy (Obj kvs) = True"
| "truthy (Fn f) = True"

text \<open>
  Property read \<^verbatim>\<open>v.k\<close>, also the read done by a destructuring pattern
  \<^verbatim>\<open>const {k} = v\<close>: reading from \<^verbatim>\<open>undefined\<close> or \<^verbatim>\<open>null\<close> throws a TypeError,
  a missing property reads as \<^verbatim>\<open>undefined\<close>. Own properties only: the properties
  inherited from the prototypes are left out, apart from \<^verbatim>\<open>length\<close> and a function's
  \<^verbatim>\<open>name\<close>; none of the keys read by the controllers is an inherited one.
\<close>

fun get_prop :: "jsval \<Rightarrow> string \<Rightarrow> error + jsval" where
  "get_prop Undefined k = Inl (TypeError (''Cannot read properties of undefined (reading '' @ k @ '')''))"
| "get_prop Null k = Inl (TypeError (''Cannot read properties of null (reading '' @ k @ '')''))"
| "get_prop (Obj kvs) k = Inr (case map_of kvs k of Some v \<Rightarrow> v | None \<Rightarrow> Undefined)"
| "get_prop (Arr xs) k = Inr (if k = ''length'' then Num (int (length xs)) else Undefined)"
| "get_prop (Str s) k = Inr (if k = ''length'' then Num (int (length s)) else Undefined)"
| "get_prop (Fn f) k = Inr (if k = ''name'' then Str f else Undefined)"
| "get_prop (Bool b) k = Inr Undefined"
| "get_prop (Num n) k = Inr Undefined"

text \<open>
  Identifier lookup in a lexical environment. The controllers live in an ES module, which is
  strict code: an identifier that no enclosing scope binds is a ReferenceError.
\<close>

definition resolve :: "(string \<times> jsval) list \<Rightarrow> string \<Rightarrow> error + jsval" where
  "resolve env x =
     (case map_of env x of
        Some v \<Rightarrow> Inr v
      | None \<Rightarrow> Inl (ReferenceError (x @ '' is not defined'')))"

section \<open>Requests, responses and the world a controller runs in\<close>

record request =
  req_body :: jsval
  req_params :: jsval
  req_id :: jsval
  req_file :: jsval
  req_cookies :: "(string \<times> string) list"

text \<open>The request object as a value, for the places where the code passes \<^verbatim>\<open>req\<close> itself.\<close>

definition req_val :: "request \<Rightarrow> jsval" where
  "req_val req =
     Obj [(''body'', req_body req), (''params'', req_params req), (''id'', req_id req),
          (''file'', req_file req),
          (''cookies'', Obj (map (\<lambda>(k, v). (k, Str v)) (req_cookies req)))]"

record response =
  status :: nat
  json :: jsval

type_synonym document = "(string \<times> jsval) list"

text \<open>
  The static methods of the Company model that the controllers are written against. The model
  is a Mongoose model declared in models/company.model.js; these are the query methods of a
  Mongoose model that this module means to call.
\<close>

datatype static = find_docs | findOne | findById | findByIdAndUpdate | create

definition Company_static :: "string \<Rightarrow> static option" where
  "Company_static m =
     map_of [(''find'', find_docs), (''findOne'', findOne), (''findById'', findById),
             (''findByIdAndUpdate'', findByIdAndUpdate), (''create'', create)] m"

text \<open>
  The world: the Company collection, the environment's choices (\<open>fault\<close> says which store
  calls reject, with what error; \<open>oid\<close> gives the identifier of the n-th created document),
  and what a run leaves behind: the store calls made, the responses sent with
  \<^verbatim>\<open>res.status(..).json(..)\<close> and the errors written with \<^verbatim>\<open>console.log\<close>.
\<close>

record world =
  companies :: "document list"
  fault :: "static \<Rightarrow> jsval list \<Rightarrow> error option"
  oid :: "nat \<Rightarrow> string"
  dbcalls :: "(static \<times> jsval list) list"
  sent :: "response list"
  console :: "error list"

type_synonym 'a prog = "world \<Rightarrow> (error + 'a) \<times> world"

definition resolved :: "'a \<Rightarrow> 'a prog" where
  "resolved v w = (Inr v, w)"

definition lift :: "error + 'a \<Rightarrow> 'a prog" where
  "lift r w = (r, w)"

definition and_then :: "'a prog \<Rightarrow> ('a \<Rightarrow> 'b prog) \<Rightarrow> 'b prog" where
  "and_then m f w = (case m w of (Inl e, w') \<Rightarrow> (Inl e, w') | (Inr v, w') \<Rightarrow> f v w')"

text \<open>\<^verbatim>\<open>try { body } catch (error) { handler(error) }\<close>\<close>

definition try_catch :: "unit prog \<Rightarrow> (error \<Rightarrow> unit prog) \<Rightarrow> unit prog" where
  "try_catch body handler w =
     (case body w of (Inl e, w') \<Rightarrow> handler e w' | (Inr v, w') \<Rightarrow> (Inr v, w'))"

definition console_log :: "error \<Rightarrow> unit prog" where
  "console_log e w = (Inr (), w\<lparr>console := console w @ [e]\<rparr>)"

definition res_status_json :: "nat \<Rightarrow> jsval \<Rightarrow> unit prog" where
  "res_status_json s j w = (Inr (), w\<lparr>sent := sent w @ [\<lparr>status = s, json = j\<rparr>]\<rparr>)"

section \<open>The document store\<close>

definition get_field :: "document \<Rightarrow> string \<Rightarrow> jsval" where
  "get_field d k = (case map_of d k of Some v \<Rightarrow> v | None \<Rightarrow> Undefined)"

definition matches :: "(string \<times> jsval) list \<Rightarrow> document \<Rightarrow> bool" where
  "matches filt d = list_all (\<lambda>(k, v). get_field d k = v) filt"

fun set_field :: "string \<Rightarrow> jsval \<Rightarrow> document \<Rightarrow> document" where
  "set_field k v [] = [(k, v)]"
| "set_field k v ((k', v') # d) =
     (if k' = k then (k, v) # d else (k', v') # set_field k v d)"

definition apply_update :: "(string \<times> jsval) list \<Rightarrow> document \<Rightarrow> document" where
  "apply_update upd d = fold (\<lambda>(k, v) d'. if v = Undefined then d' else set_field k v d') upd d"

fun replace_first :: "(document \<Rightarrow> bool) \<Rightarrow> document \<Rightarrow> document list \<Rightarrow> document list" where
  "replace_first P d' [] = []"
| "replace_first P d' (d # ds) = (if P d then d' # ds else d # replace_first P d' ds)"

text \<open>
  What a store call answers when it does not reject: an in-memory collection, a filter
  matching by equality of the fields it names.
\<close>

definition store_exec :: "static \<Rightarrow> jsval list \<Rightarrow> jsval prog" where
  "store_exec m args w =
     (case (m, args) of
        (find_docs, [Obj filt]) \<Rightarrow>
          (Inr (Arr (map Obj (filter (matches filt) (companies w)))), w)
      | (findOne, [Obj filt]) \<Rightarrow>
          (case List.find (matches filt) (companies w) of
             None \<Rightarrow> (Inr Null, w)
           | Some d \<Rightarrow> (Inr (Obj d), w))
      | (findById, [i]) \<Rightarrow>
          (case List.find (\<lambda>d. get_field d ''_id'' = i) (companies w) of
             None \<Rightarrow> (Inr Null, w)
           | Some d \<Rightarrow> (Inr (Obj d), w))
      | (create, [Obj props]) \<Rightarrow>
          (let d = (''_id'', Str (oid w (length (companies w)))) # props
           in (Inr (Obj d), w\<lparr>companies := companies w @ [d]\<rparr>))
      | (findByIdAndUpdate, [i, Obj upd, opts]) \<Rightarrow>
          (case List.find (\<lambda>d. get_field d ''_id'' = i) (companies w) of
             None \<Rightarrow> (Inr Null, w)
           | Some d \<Rightarrow>
               (let d' = apply_update upd d;
                    w' = w\<lparr>companies :=
                            replace_first (\<lambda>d. get_field d ''_id'' = i) d' (companies w)\<rparr>
                in (case get_prop opts ''new'' of
                      Inr v \<Rightarrow> (Inr (Obj (if truthy v then d' else d)), w')
                    | Inl e \<Rightarrow> (Inr (Obj d), w'))))
      | _ \<Rightarrow> (Inl (StoreError ''bad arguments''), w))"

text \<open>
  The call \<^verbatim>\<open>await Company.m(args)\<close>. A name that is no method of the model reads as
  \<^verbatim>\<open>undefined\<close>, and calling it throws a TypeError before anything reaches the store.
\<close>

definition Company_call :: "string \<Rightarrow> jsval list \<Rightarrow> jsval prog" where
  "Company_call m args w =
     (case Company_static m of
        None \<Rightarrow> (Inl (TypeError (''Company.'' @ m @ '' is not a function'')), w)
      | Some f \<Rightarrow>
          (let w' = w\<lparr>dbcalls := dbcalls w @ [(f, args)]\<rparr>
           in (case fault w f args of
                 Some e \<Rightarrow> (Inl e, w')
               | None \<Rightarrow> store_exec f args w')))"

section \<open>The company controllers\<close>

text \<open>registerCompany, from the duplicate test on: the code after the lookup has answered.\<close>

definition registerCompany_after_lookup :: "request \<Rightarrow> jsval \<Rightarrow> jsval \<Rightarrow> unit prog" where
  "registerCompany_after_lookup req companyName company =
     (if truthy company then
        res_status_json 400
          (Obj [(''message'', Str ''You cann't register same company''),
                (''success'', Bool False)])
      else
        and_then (Company_call ''create''
                    [Obj [(''name'', companyName), (''userId'', req_id req)]])
          (\<lambda>company.
             res_status_json 201
               (Obj [(''message'', Str ''Company registered successfully''),
                     (''company'', company),
                     (''success'', Bool True)])))"

definition registerCompany_body :: "request \<Rightarrow> unit prog" where
  "registerCompany_body req =
     and_then (lift (get_prop (req_body req) ''companyName''))
       (\<lambda>companyName.
          if \<not> truthy companyName then
            res_status_json 400
              (Obj [(''message'', Str ''Company name is required''),
                    (''success'', Bool False)])
          else
            and_then (Company_call ''finOne'' [Obj [(''name'', companyName)]])
              (\<lambda>company. registerCompany_after_lookup req companyName company))"

definition registerCompany :: "request \<Rightarrow> unit prog" where
  "registerCompany req = try_catch (registerCompany_body req) console_log"

definition getCompany_body :: "request \<Rightarrow> unit prog" where
  "getCompany_body req =
     (let userId = req_id req in
      and_then (Company_call ''find'' [Obj [(''userId'', userId)]])
        (\<lambda>companies.
           if \<not> truthy companies then
             res_status_json 404
               (Obj [(''message'', Str ''Company not found''),
                     (''success'', Bool False)])
           else resolved ()))"

definition getCompany :: "request \<Rightarrow> unit prog" where
  "getCompany req = try_catch (getCompany_body req) console_log"

definition getCompanyById_body :: "request \<Rightarrow> unit prog" where
  "getCompanyById_body req =
     and_then (lift (get_prop (req_params req) ''id''))
       (\<lambda>companyId.
          and_then (Company_call ''findById'' [companyId])
            (\<lambda>company.
               if \<not> truthy company then
                 res_status_json 404
                   (Obj [(''message'', Str ''Company not found''),
                         (''success'', Bool False)])
               else
                 res_status_json 200
                   (Obj [(''company'', company), (''success'', Bool True)])))"

definition getCompanyById :: "request \<Rightarrow> unit prog" where
  "getCompanyById req = try_catch (getCompanyById_body req) console_log"

text \<open>updateCompany, from the test of the updated document on.\<close>

definition updateCompany_respond :: "jsval \<Rightarrow> unit prog" where
  "updateCompany_respond company =
     (if \<not> truthy company then
        res_status_json 404
          (Obj [(''message'', Str ''Company not found''),
                (''success'', Bool False)])
      else
        res_status_json 404
          (Obj [(''message'', Str ''Company information updated''),
                (''success'', Bool True)]))"

text \<open>
  The bindings in scope where updateCompany builds the arguments of its store call: the
  module's import and exports, the parameters and the constants declared before the call
  (\<^verbatim>\<open>company\<close> is being declared by that very statement, \<^verbatim>\<open>error\<close> exists in the catch
  clause only). A Node process has no global of the name \<^verbatim>\<open>params\<close>.
\<close>

definition updateCompany_env ::
  "request \<Rightarrow> jsval \<Rightarrow> jsval \<Rightarrow> jsval \<Rightarrow> jsval \<Rightarrow> jsval \<Rightarrow> jsval \<Rightarrow> (string \<times> jsval) list" where
  "updateCompany_env req name description website location file updatedData =
     [(''updatedData'', updatedData), (''file'', file),
      (''name'', name), (''description'', description),
      (''website'', website), (''location'', location),
      (''req'', req_val req), (''res'', Fn ''res''),
      (''Company'', Fn ''Company''),
      (''registerCompany'', Fn ''registerCompany''), (''getCompany'', Fn ''getCompany''),
      (''getCompanyById'', Fn ''getCompanyById''), (''updateCompany'', Fn ''updateCompany'')]"

definition updateCompany_body :: "request \<Rightarrow> unit prog" where
  "updateCompany_body req =
     and_then (lift (get_prop (req_body req) ''name'')) (\<lambda>name.
     and_then (lift (get_prop (req_body req) ''description'')) (\<lambda>description.
     and_then (lift (get_prop (req_body req) ''website'')) (\<lambda>website.
     and_then (lift (get_prop (req_body req) ''location'')) (\<lambda>location.
       let file = req_file req;
           updatedData = Obj [(''name'', name), (''description'', description),
                              (''website'', website), (''location'', location)];
           env = updateCompany_env req name description website location file updatedData
       in
       and_then (lift (resolve env ''req'')) (\<lambda>arg1.
       and_then (lift (resolve env ''params'')) (\<lambda>params.
       and_then (lift (get_prop params ''id'')) (\<lambda>arg2.
       and_then (lift (resolve env ''updatedData'')) (\<lambda>arg3.
       and_then (Company_call ''findByIdAndUpdate''
                   [arg1, arg2, arg3, Obj [(''new'', Bool True)]])
         updateCompany_respond))))))))"

definition updateCompany :: "request \<Rightarrow> unit prog" where
  "updateCompany req = try_catch (updateCompany_body req) console_log"

section \<open>Route tables and the authentication gate\<close>

datatype http_method = GET | POST | PUT

datatype middleware = isAuthenticated | controller string

record route =
  path :: string
  via :: http_method
  chain :: "middleware list"

text \<open>routes/company.route.js\<close>

definition company_routes :: "route list" where
  "company_routes =
     [\<lparr>path = ''/register'', via = POST, chain = [isAuthenticated, controller ''registerCompany'']\<rparr>,
      \<lparr>path = ''/update/:id'', via = POST, chain = [isAuthenticated, controller ''updateCompany'']\<rparr>,
      \<lparr>path = ''/get/:id'', via = POST, chain = [isAuthenticated, controller ''getCompanyById'']\<rparr>,
      \<lparr>path = ''/get'', via = GET, chain = [isAuthenticated, controller ''getCompany'']\<rparr>]"

text \<open>The job routes, the second router that the same source file holds.\<close>

definition job_routes :: "route list" where
  "job_routes =
     [\<lparr>path = ''/post'', via = POST, chain = [isAuthenticated, controller ''postjob'']\<rparr>,
      \<lparr>path = ''/getAdminJobs'', via = PUT, chain = [isAuthenticated, controller ''getAdminJobs'']\<rparr>,
      \<lparr>path = ''/get/:id'', via = GET, chain = [isAuthenticated, controller ''getJobById'']\<rparr>,
      \<lparr>path = ''/get'', via = GET, chain = [isAuthenticated, controller ''getAllJobs'']\<rparr>]"

text \<open>routes/application.route.js\<close>

definition application_routes :: "route list" where
  "application_routes =
     [\<lparr>path = ''/apply/:id'', via = GET, chain = [isAuthenticated, controller ''applyJob'']\<rparr>,
      \<lparr>path = ''/get'', via = PUT, chain = [isAuthenticated, controller ''getAppliedJobs'']\<rparr>,
      \<lparr>path = ''/:id/applicants'', via = GET, chain = [isAuthenticated, controller ''getApplicants'']\<rparr>,
      \<lparr>path = ''/status/:id/update'', via = POST, chain = [isAuthenticated, controller ''updateStatus'']\<rparr>]"

datatype gate_result = Rejected string | Verified request

text \<open>
  Modelled from the spec: middlewares/isAuthenticated.js, the Authentication Gate, is not among
  the sources. The gate reads the token from the cookie named for the session token; if it is
  absent the request is rejected, reason "missing credential"; it calls the Session Token
  Codec's verify, and if that fails the request is rejected, reason "invalid credential"; on
  success it attaches the decoded subject identifier to the request identity context and
  proceeds. The codec (\<open>verify\<close>, with the signing secret inside) is a parameter.
\<close>

definition gate :: "(string \<Rightarrow> string option) \<Rightarrow> request \<Rightarrow> gate_result" where
  "gate verify req =
     (case map_of (req_cookies req) ''token'' of
        None \<Rightarrow> Rejected ''missing credential''
      | Some token \<Rightarrow>
          (case verify token of
             None \<Rightarrow> Rejected ''invalid credential''
           | Some subjectId \<Rightarrow> Verified (req\<lparr>req_id := Str subjectId\<rparr>)))"

datatype event =
    GateRejected string
  | GatePassed
  | Executed string request

text \<open>
  How the router runs the functions registered for a route: in order, each one running only
  if the one before it called \<^verbatim>\<open>next()\<close>. The gate calls it when it has verified the request,
  and the next function then sees the request the gate has written to; a controller takes
  \<^verbatim>\<open>(req, res)\<close> and never calls it.
\<close>

fun dispatch :: "(string \<Rightarrow> string option) \<Rightarrow> middleware list \<Rightarrow> request \<Rightarrow> event list" where
  "dispatch verify [] req = []"
| "dispatch verify (isAuthenticated # rest) req =
     (case gate verify req of
        Rejected reason \<Rightarrow> [GateRejected reason]
      | Verified req' \<Rightarrow> GatePassed # dispatch verify rest req')"
| "dispatch verify (controller h # rest) req = [Executed h req]"

section \<open>Example requests and worlds\<close>

definition acme :: document where
  "acme = [(''_id'', Str ''c1''), (''name'', Str ''Acme''), (''userId'', Str ''u1'')]"

definition empty_store :: world where
  "empty_store =
     \<lparr>companies = [], fault = (\<lambda>m args. None), oid = (\<lambda>n. ''c'' @ replicate n (CHR ''+'')),
      dbcalls = [], sent = [], console = []\<rparr>"

definition acme_store :: world where
  "acme_store = empty_store\<lparr>companies := [acme]\<rparr>"

definition store_down :: world where
  "store_down = acme_store\<lparr>fault := (\<lambda>m args. Some (StoreError ''store unavailable''))\<rparr>"

text \<open>
  A store as Mongoose presents it for \<^verbatim>\<open>findById\<close>: the id is cast to an ObjectId before the
  query is sent, and the call rejects when the id is not a string of 24 hexadecimal digits.
\<close>

definition is_object_id :: "string \<Rightarrow> bool" where
  "is_object_id s =
     (length s = 24 \<and> list_all (\<lambda>c. c \<in> set ''0123456789abcdefABCDEF'') s)"

definition cast_fault :: "static \<Rightarrow> jsval list \<Rightarrow> error option" where
  "cast_fault m args =
     (case (m, args) of
        (findById, [Str s]) \<Rightarrow>
          (if is_object_id s then None else Some (StoreError ''Cast to ObjectId failed''))
      | (findById, _) \<Rightarrow> Some (StoreError ''Cast to ObjectId failed'')
      | _ \<Rightarrow> None)"

definition globex :: document where
  "globex = [(''_id'', Str ''507f1f77bcf86cd799439011''), (''name'', Str ''Globex''),
             (''userId'', Str ''u1'')]"

definition casting_store :: world where
  "casting_store = empty_store\<lparr>companies := [globex], fault := cast_fault\<rparr>"

text \<open>A request that has passed the gate as subject \<open>u\<close>, with the given body and route id.\<close>

definition request_of :: "string \<Rightarrow> jsval \<Rightarrow> string \<Rightarrow> request" where
  "request_of u b i =
     \<lparr>req_body = b, req_params = Obj [(''id'', Str i)], req_id = Str u,
      req_file = Undefined, req_cookies = [(''token'', ''t-'' @ u)]\<rparr>"

text \<open>A request as it arrives, before the gate; and a codec that accepts the tokens \<open>t-u\<close>.\<close>

definition arriving :: "string \<Rightarrow> request" where
  "arriving tok =
     \<lparr>req_body = Obj [], req_params = Obj [], req_id = Undefined,
      req_file = Undefined, req_cookies = [(''token'', tok)]\<rparr>"

definition demo_verify :: "string \<Rightarrow> string option" where
  "demo_verify tok = (if take 2 tok = ''t-'' then Some (drop 2 tok) else None)"

section \<open>Evaluation facts\<close>

lemmas prog_defs = resolved_def lift_def and_then_def try_catch_def console_log_def
  res_status_json_def

lemmas example_defs = acme_def empty_store_def acme_store_def store_down_def request_of_def
  arriving_def demo_verify_def

lemma Company_static_simps:
  "Company_static ''finOne'' = None"
  "Company_static ''find'' = Some find_docs"
  "Company_static ''findById'' = Some findById"
  "Company_static ''create'' = Some create"
  "Company_static ''findByIdAndUpdate'' = Some findByIdAndUpdate"
  by (simp_all add: Company_static_def)

lemma registerCompany_body_named:
  "get_prop (req_body req) ''companyName'' = Inr cn \<Longrightarrow> truthy cn \<Longrightarrow>
   registerCompany_body req w = (Inl (TypeError ''Company.finOne is not a function''), w)"
  by (simp add: registerCompany_body_def prog_defs Company_call_def Company_static_simps)

lemma registerCompany_body_unnamed:
  "get_prop (req_body req) ''companyName'' = Inr cn \<Longrightarrow> \<not> truthy cn \<Longrightarrow>
   registerCompany_body req w =
     (Inr (), w\<lparr>sent := sent w @ [\<lparr>status = 400,
        json = Obj [(''message'', Str ''Company name is required''), (''success'', Bool False)]\<rparr>]\<rparr>)"
  by (simp add: registerCompany_body_def prog_defs)

lemma registerCompany_body_unreadable:
  "get_prop (req_body req) ''companyName'' = Inl e \<Longrightarrow> registerCompany_body req w = (Inl e, w)"
  by (simp add: registerCompany_body_def prog_defs)

lemma registerCompany_body_fails:
  "registerCompany_body req w = (Inl e, w') \<Longrightarrow> w' = w"
  apply (cases "get_prop (req_body req) ''companyName''")
   apply (simp add: registerCompany_body_unreadable)
  subgoal for cn
    apply (cases "truthy cn")
     apply (simp add: registerCompany_body_named)
    apply (simp add: registerCompany_body_unnamed)
    done
  done

lemma getCompany_body_eq:
  "getCompany_body req w =
     (case fault w find_docs [Obj [(''userId'', req_id req)]] of
        Some e \<Rightarrow> (Inl e, w\<lparr>dbcalls := dbcalls w @ [(find_docs, [Obj [(''userId'', req_id req)]])]\<rparr>)
      | None \<Rightarrow> (Inr (), w\<lparr>dbcalls := dbcalls w @ [(find_docs, [Obj [(''userId'', req_id req)]])]\<rparr>))"
  by (simp add: getCompany_body_def prog_defs Company_call_def Company_static_simps store_exec_def
      split: option.splits)

lemma getCompanyById_body_eq:
  "get_prop (req_params req) ''id'' = Inr cid \<Longrightarrow>
   getCompanyById_body req w =
     (let w' = w\<lparr>dbcalls := dbcalls w @ [(findById, [cid])]\<rparr> in
      case fault w findById [cid] of
        Some e \<Rightarrow> (Inl e, w')
      | None \<Rightarrow>
         (case List.find (\<lambda>d. get_field d ''_id'' = cid) (companies w) of
            None \<Rightarrow> (Inr (), w'\<lparr>sent := sent w @ [\<lparr>status = 404,
               json = Obj [(''message'', Str ''Company not found''), (''success'', Bool False)]\<rparr>]\<rparr>)
          | Some d \<Rightarrow> (Inr (), w'\<lparr>sent := sent w @ [\<lparr>status = 200,
               json = Obj [(''company'', Obj d), (''success'', Bool True)]\<rparr>]\<rparr>)))"
  by (simp add: getCompanyById_body_def prog_defs Company_call_def Company_static_simps store_exec_def
      Let_def split: option.splits)

lemma getCompanyById_body_unreadable:
  "get_prop (req_params req) ''id'' = Inl e \<Longrightarrow> getCompanyById_body req w = (Inl e, w)"
  by (simp add: getCompanyById_body_def prog_defs)

lemma resolve_params:
  "resolve (updateCompany_env req n d ws l f u) ''params'' = Inl (ReferenceError ''params is not defined'')"
  by (simp add: resolve_def updateCompany_env_def)

lemma resolve_req:
  "resolve (updateCompany_env req n d ws l f u) ''req'' = Inr (req_val req)"
  by (simp add: resolve_def updateCompany_env_def)

lemma updateCompany_body_readable:
  "req_body req \<noteq> Undefined \<Longrightarrow> req_body req \<noteq> Null \<Longrightarrow>
   updateCompany_body req w = (Inl (ReferenceError ''params is not defined''), w)"
  by (cases "req_body req")
     (simp_all add: updateCompany_body_def prog_defs Let_def resolve_params resolve_req)

lemma updateCompany_body_fails: "\<exists>e. updateCompany_body req w = (Inl e, w)"
  by (cases "req_body req")
     (simp_all add: updateCompany_body_def prog_defs Let_def resolve_params resolve_req)

lemma getCompany_body_fails:
  "getCompany_body req w = (Inl e, w') \<Longrightarrow> sent w' = sent w"
  by (auto simp add: getCompany_body_eq split: option.splits)

lemma getCompanyById_body_fails:
  "getCompanyById_body req w = (Inl e, w') \<Longrightarrow> sent w' = sent w"
  by (cases "get_prop (req_params req) ''id''")
     (auto simp add: getCompanyById_body_eq getCompanyById_body_unreadable Let_def
       split: option.splits)

lemma try_catch_log:
  "body w = (Inl e, w') \<Longrightarrow>
   try_catch body console_log w = (Inr (), w'\<lparr>console := console w' @ [e]\<rparr>)"
  by (simp add: try_catch_def console_log_def)

lemma try_catch_settles: "fst (try_catch body console_log w) = Inr ()"
  by (simp add: try_catch_def console_log_def split: prod.splits sum.splits)

lemma find_by_owner:
  "store_exec find_docs [Obj [(''userId'', u)]] w =
     (Inr (Arr (map Obj (filter (\<lambda>d. get_field d ''userId'' = u) (companies w)))), w)"
proof -
  have "matches [(''userId'', u)] = (\<lambda>d. get_field d ''userId'' = u)"
    by (rule ext) (simp add: matches_def)
  then show ?thesis
    by (simp add: store_exec_def)
qed

lemma updateCompany_respond_found:
  "truthy company \<Longrightarrow>
   updateCompany_respond company w =
     (Inr (), w\<lparr>sent := sent w @ [\<lparr>status = 404,
        json = Obj [(''message'', Str ''Company information updated''), (''success'', Bool True)]\<rparr>]\<rparr>)"
  by (simp add: updateCompany_respond_def res_status_json_def)


lemma getCompany_depends_on_req_id_only:
  "req_id r2 = req_id r1 \<Longrightarrow> getCompany r2 w = getCompany r1 w"
  by (simp add: getCompany_def getCompany_body_def)

lemma registerCompany_never_creates:
  "companies (snd (registerCompany req w)) = companies w
   \<and> dbcalls (snd (registerCompany req w)) = dbcalls w
   \<and> (sent (snd (registerCompany req w)) = sent w
       \<or> sent (snd (registerCompany req w)) = sent w @ [\<lparr>status = 400,
            json = Obj [(''message'', Str ''Company name is required''),
                        (''success'', Bool False)]\<rparr>])"
proof (cases "get_prop (req_body req) ''companyName''")
  case (Inl e)
  then show ?thesis
    by (simp add: registerCompany_def try_catch_def console_log_def registerCompany_body_unreadable)
next
  case (Inr cn)
  then show ?thesis
    by (cases "truthy cn")
       (simp_all add: registerCompany_def try_catch_def console_log_def
         registerCompany_body_named registerCompany_body_unnamed)
qed

lemma chain_of_route:
  "rt \<in> set (company_routes @ job_routes @ application_routes) \<Longrightarrow>
   \<exists>h. chain rt = [isAuthenticated, controller h]"
  by (auto simp add: company_routes_def job_routes_def application_routes_def)

lemma dispatch_gated:
  "Executed h req' \<in> set (dispatch verify [isAuthenticated, controller k] req) \<Longrightarrow>
   k = h \<and> (\<exists>token subjectId. map_of (req_cookies req) ''token'' = Some token
       \<and> verify token = Some subjectId \<and> req' = req\<lparr>req_id := Str subjectId\<rparr>)
     \<and> dispatch verify [isAuthenticated, controller k] req = [GatePassed, Executed h req']"
  by (auto simp add: gate_def split: option.splits gate_result.splits)

text \<open>
  Whatever fails inside a controller is caught by its own catch clause, which writes the error
  to the console and nothing else: the controller settles normally, and no response has been
  sent by the time the failure occurs, nor is one sent after it.
\<close>

lemma handlers_log_failures:
  "(registerCompany_body req w = (Inl e, w') \<longrightarrow>
      registerCompany req w = (Inr (), w'\<lparr>console := console w' @ [e]\<rparr>) \<and> sent w' = sent w)
   \<and> (getCompany_body req w = (Inl e, w') \<longrightarrow>
      getCompany req w = (Inr (), w'\<lparr>console := console w' @ [e]\<rparr>) \<and> sent w' = sent w)
   \<and> (getCompanyById_body req w = (Inl e, w') \<longrightarrow>
      getCompanyById req w = (Inr (), w'\<lparr>console := console w' @ [e]\<rparr>) \<and> sent w' = sent w)
   \<and> (updateCompany_body req w = (Inl e, w') \<longrightarrow>
      updateCompany req w = (Inr (), w'\<lparr>console := console w' @ [e]\<rparr>) \<and> sent w' = sent w)
   \<and> fst (registerCompany req w) = Inr () \<and> fst (getCompany req w) = Inr ()
   \<and> fst (getCompanyById req w) = Inr () \<and> fst (updateCompany req w) = Inr ()"
proof -
  have u: "updateCompany_body req w = (Inl e, w') \<Longrightarrow> sent w' = sent w"
    using updateCompany_body_fails [of req w] by auto
  have r: "registerCompany_body req w = (Inl e, w') \<Longrightarrow> sent w' = sent w"
    using registerCompany_body_fails [of req w e w'] by simp
  show ?thesis
    unfolding registerCompany_def getCompany_def getCompanyById_def updateCompany_def
    using u r getCompany_body_fails [of req w e w'] getCompanyById_body_fails [of req w e w']
    by (simp add: try_catch_log try_catch_settles)
qed

section \<open>The claims\<close>

text \<open>
  Claim C1. A registration whose company name is already in the store is to be rejected with
  a 4xx conflict response, without touching the store. Run on a store that holds ``Acme'', a
  request to register ``Acme'' again leaves the store as it was, but it is not answered: the
  lookup is written \<^verbatim>\<open>Company.finOne\<close>, calling it throws, and the catch clause only logs.
\<close>

theorem registerCompany_duplicate_gets_no_response:
  "List.find (matches [(''name'', Str ''Acme'')]) (companies acme_store) = Some acme
   \<and> registerCompany (request_of ''u2'' (Obj [(''companyName'', Str ''Acme'')]) ''x'') acme_store =
     (Inr (), acme_store\<lparr>console := [TypeError ''Company.finOne is not a function'']\<rparr>)
   \<and> sent (snd (registerCompany (request_of ''u2'' (Obj [(''companyName'', Str ''Acme'')]) ''x'') acme_store)) = []"
  by (simp add: registerCompany_def try_catch_def console_log_def registerCompany_body_named
      example_defs matches_def get_field_def)

text \<open>
  Claim C2. Every route of the company, job and application tables registers the gate in front
  of its controller, and on such a route the controller runs only after the gate has verified
  the request's token and written the subject identifier to \<^verbatim>\<open>req.id\<close>: the request the
  controller receives is the incoming one with \<^verbatim>\<open>req.id\<close> set to the verified subject.
\<close>

theorem protected_controller_runs_behind_gate:
  assumes "rt \<in> set (company_routes @ job_routes @ application_routes)"
  shows "(\<exists>h. chain rt = [isAuthenticated, controller h])
     \<and> (\<forall>h req'. Executed h req' \<in> set (dispatch verify (chain rt) req) \<longrightarrow>
          (\<exists>token subjectId. map_of (req_cookies req) ''token'' = Some token
             \<and> verify token = Some subjectId \<and> req' = req\<lparr>req_id := Str subjectId\<rparr>)
          \<and> dispatch verify (chain rt) req = [GatePassed, Executed h req'])"
proof -
  from assms obtain k where k: "chain rt = [isAuthenticated, controller k]"
    using chain_of_route by blast
  show ?thesis
    unfolding k using dispatch_gated [of _ _ verify k req] by blast
qed

text \<open>
  On the register route, a request with a token the codec accepts reaches registerCompany with
  \<^verbatim>\<open>req.id\<close> set; one with a token the codec refuses stops at the gate.
\<close>

theorem protected_controller_runs_behind_gate_witness:
  "hd company_routes \<in> set (company_routes @ job_routes @ application_routes)
   \<and> Executed ''registerCompany'' ((arriving ''t-u1'')\<lparr>req_id := Str ''u1''\<rparr>)
        \<in> set (dispatch demo_verify (chain (hd company_routes)) (arriving ''t-u1''))
   \<and> dispatch demo_verify (chain (hd company_routes)) (arriving ''t-u1'') =
        [GatePassed, Executed ''registerCompany'' ((arriving ''t-u1'')\<lparr>req_id := Str ''u1''\<rparr>)]
   \<and> dispatch demo_verify (chain (hd company_routes)) (arriving ''forged'') =
        [GateRejected ''invalid credential'']"
proof -
  have m: "hd company_routes \<in> set (company_routes @ job_routes @ application_routes)"
    by (simp add: company_routes_def)
  have e: "Executed ''registerCompany'' ((arriving ''t-u1'')\<lparr>req_id := Str ''u1''\<rparr>)
        \<in> set (dispatch demo_verify (chain (hd company_routes)) (arriving ''t-u1''))"
    by (simp add: company_routes_def gate_def arriving_def demo_verify_def)
  have r: "dispatch demo_verify (chain (hd company_routes)) (arriving ''forged'') =
        [GateRejected ''invalid credential'']"
    by (simp add: company_routes_def gate_def arriving_def demo_verify_def)
  from protected_controller_runs_behind_gate [OF m, of demo_verify "arriving ''t-u1''"] e
  have "dispatch demo_verify (chain (hd company_routes)) (arriving ''t-u1'') =
        [GatePassed, Executed ''registerCompany'' ((arriving ''t-u1'')\<lparr>req_id := Str ''u1''\<rparr>)]"
    by blast
  with m e r show ?thesis by blast
qed

text \<open>
  Claim C3. A failure inside a handler is to be answered with a 5xx response. It is not: a
  registration that fails in the lookup, the two reads on a store that is down and an update
  all end with the error on the server console and with no response sent.
\<close>

theorem failing_controllers_send_nothing:
  "registerCompany (request_of ''u1'' (Obj [(''companyName'', Str ''Acme'')]) ''x'') empty_store
     = (Inr (), empty_store\<lparr>console := [TypeError ''Company.finOne is not a function'']\<rparr>)
   \<and> getCompany (request_of ''u1'' (Obj []) ''x'') store_down
     = (Inr (), store_down\<lparr>dbcalls := [(find_docs, [Obj [(''userId'', Str ''u1'')]])],
                            console := [StoreError ''store unavailable'']\<rparr>)
   \<and> getCompanyById (request_of ''u1'' (Obj []) ''c1'') store_down
     = (Inr (), store_down\<lparr>dbcalls := [(findById, [Str ''c1''])],
                            console := [StoreError ''store unavailable'']\<rparr>)
   \<and> updateCompany (request_of ''u1'' (Obj [(''name'', Str ''Acme Ltd'')]) ''c1'') acme_store
     = (Inr (), acme_store\<lparr>console := [ReferenceError ''params is not defined'']\<rparr>)
   \<and> sent (snd (registerCompany (request_of ''u1'' (Obj [(''companyName'', Str ''Acme'')]) ''x'') empty_store)) = []
   \<and> sent (snd (getCompany (request_of ''u1'' (Obj []) ''x'') store_down)) = []
   \<and> sent (snd (getCompanyById (request_of ''u1'' (Obj []) ''c1'') store_down)) = []
   \<and> sent (snd (updateCompany (request_of ''u1'' (Obj [(''name'', Str ''Acme Ltd'')]) ''c1'') acme_store)) = []"
proof -
  have a: "registerCompany_body (request_of ''u1'' (Obj [(''companyName'', Str ''Acme'')]) ''x'') empty_store
     = (Inl (TypeError ''Company.finOne is not a function''), empty_store)"
    by (simp add: registerCompany_body_named request_of_def)
  have b: "getCompany_body (request_of ''u1'' (Obj []) ''x'') store_down
     = (Inl (StoreError ''store unavailable''),
        store_down\<lparr>dbcalls := [(find_docs, [Obj [(''userId'', Str ''u1'')]])]\<rparr>)"
    by (simp add: getCompany_body_eq example_defs)
  have c: "getCompanyById_body (request_of ''u1'' (Obj []) ''c1'') store_down
     = (Inl (StoreError ''store unavailable''),
        store_down\<lparr>dbcalls := [(findById, [Str ''c1''])]\<rparr>)"
    by (simp add: getCompanyById_body_eq [of _ "Str ''c1''"] example_defs)
  have d: "updateCompany_body (request_of ''u1'' (Obj [(''name'', Str ''Acme Ltd'')]) ''c1'') acme_store
     = (Inl (ReferenceError ''params is not defined''), acme_store)"
    by (simp add: updateCompany_body_readable request_of_def)
  show ?thesis
    using handlers_log_failures [of _ _ _ _, THEN conjunct1, rule_format, OF a]
      handlers_log_failures [of _ _ _ _, THEN conjunct2, THEN conjunct1, rule_format, OF b]
      handlers_log_failures [of _ _ _ _, THEN conjunct2, THEN conjunct2, THEN conjunct1, rule_format, OF c]
      handlers_log_failures [of _ _ _ _, THEN conjunct2, THEN conjunct2, THEN conjunct2, THEN conjunct1, rule_format, OF d]
    by (simp add: example_defs)
qed

text \<open>
  Claim C4. When \<^verbatim>\<open>companyName\<close> is absent from the body (or is any other falsy value),
  registerCompany answers 400 with the message ``Company name is required'' and
  \<^verbatim>\<open>success: false\<close>; it makes no store call and leaves the collection as it was.
\<close>

theorem registerCompany_requires_companyName:
  assumes "get_prop (req_body req) ''companyName'' = Inr cn" and "\<not> truthy cn"
  shows "registerCompany req w =
     (Inr (), w\<lparr>sent := sent w @ [\<lparr>status = 400,
        json = Obj [(''message'', Str ''Company name is required''), (''success'', Bool False)]\<rparr>]\<rparr>)
     \<and> companies (snd (registerCompany req w)) = companies w
     \<and> dbcalls (snd (registerCompany req w)) = dbcalls w"
  using assms by (simp add: registerCompany_def try_catch_def registerCompany_body_unnamed)

text \<open>
  A body without \<^verbatim>\<open>companyName\<close>.
\<close>

theorem registerCompany_requires_companyName_witness:
  "get_prop (req_body (request_of ''u1'' (Obj [(''description'', Str ''no name'')]) ''x'')) ''companyName'' = Inr Undefined
   \<and> \<not> truthy Undefined
   \<and> registerCompany (request_of ''u1'' (Obj [(''description'', Str ''no name'')]) ''x'') acme_store =
     (Inr (), acme_store\<lparr>sent := [\<lparr>status = 400,
        json = Obj [(''message'', Str ''Company name is required''), (''success'', Bool False)]\<rparr>]\<rparr>)"
proof -
  have a: "get_prop (req_body (request_of ''u1'' (Obj [(''description'', Str ''no name'')]) ''x'')) ''companyName'' = Inr Undefined"
    by (simp add: request_of_def)
  have b: "\<not> truthy Undefined" by simp
  from registerCompany_requires_companyName [OF a b, of acme_store] a b show ?thesis
    by (simp add: example_defs)
qed

text \<open>
  Claim C5, amended. For every getCompanyById request whose route id can be read and whose
  lookup the store answers (the call does not reject): if the collection holds a company with
  that id, the controller answers 200 with that company and \<^verbatim>\<open>success: true\<close>; if it
  holds none, it answers 404 ``Company not found''.
\<close>

theorem getCompanyById_found_or_404:
  assumes "get_prop (req_params req) ''id'' = Inr cid"
    and "fault w findById [cid] = None"
  shows "(List.find (\<lambda>d. get_field d ''_id'' = cid) (companies w) = Some d \<longrightarrow>
           getCompanyById req w =
             (Inr (), w\<lparr>dbcalls := dbcalls w @ [(findById, [cid])],
                        sent := sent w @ [\<lparr>status = 200,
                          json = Obj [(''company'', Obj d), (''success'', Bool True)]\<rparr>]\<rparr>)
           \<and> d \<in> set (companies w) \<and> get_field d ''_id'' = cid)
     \<and> (\<not> (\<exists>d \<in> set (companies w). get_field d ''_id'' = cid) \<longrightarrow>
           getCompanyById req w =
             (Inr (), w\<lparr>dbcalls := dbcalls w @ [(findById, [cid])],
                        sent := sent w @ [\<lparr>status = 404,
                          json = Obj [(''message'', Str ''Company not found''),
                                      (''success'', Bool False)]\<rparr>]\<rparr>))
     \<and> ((\<exists>d \<in> set (companies w). get_field d ''_id'' = cid) \<longrightarrow>
           (\<exists>d. List.find (\<lambda>d. get_field d ''_id'' = cid) (companies w) = Some d))"
proof -
  have found: "List.find (\<lambda>d. get_field d ''_id'' = cid) (companies w) = Some d \<Longrightarrow>
      d \<in> set (companies w) \<and> get_field d ''_id'' = cid"
    by (auto simp add: find_Some_iff)
  have absent: "\<not> (\<exists>d \<in> set (companies w). get_field d ''_id'' = cid) \<Longrightarrow>
      List.find (\<lambda>d. get_field d ''_id'' = cid) (companies w) = None"
    by (simp add: find_None_iff)
  have present: "(\<exists>d \<in> set (companies w). get_field d ''_id'' = cid) \<Longrightarrow>
      (\<exists>d. List.find (\<lambda>d. get_field d ''_id'' = cid) (companies w) = Some d)"
    by (cases "List.find (\<lambda>d. get_field d ''_id'' = cid) (companies w)")
       (auto simp add: find_None_iff)
  show ?thesis
    using assms found absent present
    by (auto simp add: getCompanyById_def try_catch_def getCompanyById_body_eq Let_def)
qed

text \<open>
  On the casting store: the id of Globex, and a well-formed id that no company has.
\<close>

theorem getCompanyById_found_or_404_witness:
  "getCompanyById (request_of ''u2'' (Obj []) ''507f1f77bcf86cd799439011'') casting_store =
     (Inr (), casting_store\<lparr>dbcalls := [(findById, [Str ''507f1f77bcf86cd799439011''])],
        sent := [\<lparr>status = 200, json = Obj [(''company'', Obj globex), (''success'', Bool True)]\<rparr>]\<rparr>)
   \<and> getCompanyById (request_of ''u2'' (Obj []) ''507f1f77bcf86cd799439012'') casting_store =
     (Inr (), casting_store\<lparr>dbcalls := [(findById, [Str ''507f1f77bcf86cd799439012''])],
        sent := [\<lparr>status = 404, json = Obj [(''message'', Str ''Company not found''),
                                      (''success'', Bool False)]\<rparr>]\<rparr>)"
proof -
  let ?r1 = "request_of ''u2'' (Obj []) ''507f1f77bcf86cd799439011''"
  let ?r2 = "request_of ''u2'' (Obj []) ''507f1f77bcf86cd799439012''"
  have p1: "get_prop (req_params ?r1) ''id'' = Inr (Str ''507f1f77bcf86cd799439011'')"
    and p2: "get_prop (req_params ?r2) ''id'' = Inr (Str ''507f1f77bcf86cd799439012'')"
    by (simp_all add: request_of_def)
  have f1: "fault casting_store findById [Str ''507f1f77bcf86cd799439011''] = None"
    and f2: "fault casting_store findById [Str ''507f1f77bcf86cd799439012''] = None"
    by (simp_all add: casting_store_def empty_store_def cast_fault_def is_object_id_def)
  have c: "companies casting_store = [globex]"
    by (simp add: casting_store_def empty_store_def)
  have h1: "List.find (\<lambda>d. get_field d ''_id'' = Str ''507f1f77bcf86cd799439011'')
              (companies casting_store) = Some globex"
    by (simp add: c) (simp add: globex_def get_field_def)
  have h2: "\<not> (\<exists>d \<in> set (companies casting_store).
              get_field d ''_id'' = Str ''507f1f77bcf86cd799439012'')"
    by (simp add: c) (simp add: globex_def get_field_def)
  have e: "sent casting_store = []" "dbcalls casting_store = []"
    by (simp_all add: casting_store_def empty_store_def)
  have a: "getCompanyById ?r1 casting_store =
     (Inr (), casting_store\<lparr>dbcalls := dbcalls casting_store @ [(findById, [Str ''507f1f77bcf86cd799439011''])],
        sent := sent casting_store @ [\<lparr>status = 200,
          json = Obj [(''company'', Obj globex), (''success'', Bool True)]\<rparr>]\<rparr>)"
    using getCompanyById_found_or_404 [OF p1 f1, of globex] h1 by blast
  have b: "getCompanyById ?r2 casting_store =
     (Inr (), casting_store\<lparr>dbcalls := dbcalls casting_store @ [(findById, [Str ''507f1f77bcf86cd799439012''])],
        sent := sent casting_store @ [\<lparr>status = 404,
          json = Obj [(''message'', Str ''Company not found''), (''success'', Bool False)]\<rparr>]\<rparr>)"
    using getCompanyById_found_or_404 [OF p2 f2] h2 by blast
  show ?thesis
    unfolding a b e by simp
qed

text \<open>
  As the claim is written, for every request, it does not hold: when the lookup rejects, the
  catch clause logs the error and nothing is sent. On a store that is down, the request for
  the id of Acme, which the collection holds, gets no 200; on the casting store, the request
  for the id \<^verbatim>\<open>c7\<close>, which no company has, gets no 404.
\<close>

theorem getCompanyById_rejected_lookup_counterexample:
  "companies store_down = [acme] \<and> get_field acme ''_id'' = Str ''c1''
   \<and> getCompanyById (request_of ''u2'' (Obj []) ''c1'') store_down =
       (Inr (), store_down\<lparr>dbcalls := [(findById, [Str ''c1''])],
                              console := [StoreError ''store unavailable'']\<rparr>)
   \<and> sent (snd (getCompanyById (request_of ''u2'' (Obj []) ''c1'') store_down)) = []
   \<and> companies casting_store = [globex] \<and> get_field globex ''_id'' \<noteq> Str ''c7''
   \<and> getCompanyById (request_of ''u2'' (Obj []) ''c7'') casting_store =
       (Inr (), casting_store\<lparr>dbcalls := [(findById, [Str ''c7''])],
                                 console := [StoreError ''Cast to ObjectId failed'']\<rparr>)
   \<and> sent (snd (getCompanyById (request_of ''u2'' (Obj []) ''c7'') casting_store)) = []"
proof -
  have a: "getCompanyById (request_of ''u2'' (Obj []) ''c1'') store_down =
       (Inr (), store_down\<lparr>dbcalls := [(findById, [Str ''c1''])],
                              console := [StoreError ''store unavailable'']\<rparr>)"
    by (simp add: getCompanyById_def try_catch_def console_log_def
        getCompanyById_body_eq [of _ "Str ''c1''"] example_defs)
  have b: "getCompanyById (request_of ''u2'' (Obj []) ''c7'') casting_store =
       (Inr (), casting_store\<lparr>dbcalls := [(findById, [Str ''c7''])],
                                 console := [StoreError ''Cast to ObjectId failed'']\<rparr>)"
    by (simp add: getCompanyById_def try_catch_def console_log_def
        getCompanyById_body_eq [of _ "Str ''c7''"] request_of_def casting_store_def
        empty_store_def cast_fault_def is_object_id_def)
  have c: "companies store_down = [acme]" "get_field acme ''_id'' = Str ''c1''"
    "companies casting_store = [globex]" "get_field globex ''_id'' \<noteq> Str ''c7''"
    "sent store_down = []" "sent casting_store = []"
    by (simp_all add: example_defs casting_store_def globex_def get_field_def)
  show ?thesis
    unfolding a b by (simp add: c)
qed


text \<open>
  Claim C7. getCompany is to answer 404 when the subject owns no company and to answer with the
  subject's companies otherwise. It does neither: for a subject with no company the lookup
  yields the empty array, which is truthy, so the 404 is skipped; and for a subject with a
  company there is no response statement to reach.
\<close>

theorem getCompany_answers_neither_case:
  "filter (\<lambda>d. get_field d ''userId'' = Str ''u2'') (companies acme_store) = []
   \<and> getCompany (request_of ''u2'' (Obj []) ''x'') acme_store
       = (Inr (), acme_store\<lparr>dbcalls := [(find_docs, [Obj [(''userId'', Str ''u2'')]])]\<rparr>)
   \<and> sent (snd (getCompany (request_of ''u2'' (Obj []) ''x'') acme_store)) = []
   \<and> filter (\<lambda>d. get_field d ''userId'' = Str ''u1'') (companies acme_store) = [acme]
   \<and> getCompany (request_of ''u1'' (Obj []) ''x'') acme_store
       = (Inr (), acme_store\<lparr>dbcalls := [(find_docs, [Obj [(''userId'', Str ''u1'')]])]\<rparr>)
   \<and> sent (snd (getCompany (request_of ''u1'' (Obj []) ''x'') acme_store)) = []"
  by (simp add: getCompany_def try_catch_def getCompany_body_eq example_defs get_field_def)

text \<open>
  Claim C8. Once \<^verbatim>\<open>companyName\<close> has passed the presence test, the duplicate lookup
  \<^verbatim>\<open>Company.finOne\<close> throws a TypeError, which the catch clause logs: no store call is made,
  nothing is created and no response is sent.
\<close>

theorem registerCompany_lookup_throws:
  assumes "get_prop (req_body req) ''companyName'' = Inr cn" and "truthy cn"
  shows "registerCompany req w =
     (Inr (), w\<lparr>console := console w @ [TypeError ''Company.finOne is not a function'']\<rparr>)
     \<and> dbcalls (snd (registerCompany req w)) = dbcalls w
     \<and> companies (snd (registerCompany req w)) = companies w
     \<and> sent (snd (registerCompany req w)) = sent w"
  using assms by (simp add: registerCompany_def try_catch_def console_log_def registerCompany_body_named)

text \<open>
  A first registration of ``Globex''.
\<close>

theorem registerCompany_lookup_throws_witness:
  "registerCompany (request_of ''u1'' (Obj [(''companyName'', Str ''Globex'')]) ''x'') acme_store =
     (Inr (), acme_store\<lparr>console := [TypeError ''Company.finOne is not a function'']\<rparr>)
   \<and> get_prop (req_body (request_of ''u1'' (Obj [(''companyName'', Str ''Globex'')]) ''x'')) ''companyName''
       = Inr (Str ''Globex'')
   \<and> truthy (Str ''Globex'')"
  using registerCompany_lookup_throws [of "request_of ''u1'' (Obj [(''companyName'', Str ''Globex'')]) ''x''" "Str ''Globex''" acme_store]
  by (simp add: example_defs)

text \<open>
  Claim C9. updateCompany always ends in its catch clause: it makes no store call, changes no
  company and sends no response. When the body can be destructured, the error is the
  ReferenceError of \<^verbatim>\<open>params\<close> in \<^verbatim>\<open>req,params.id\<close>. The success branch, had a company been
  found, would answer with status 404 and \<^verbatim>\<open>success: true\<close>.
\<close>

theorem updateCompany_never_reaches_store:
  "(\<exists>e. updateCompany req w = (Inr (), w\<lparr>console := console w @ [e]\<rparr>))
   \<and> companies (snd (updateCompany req w)) = companies w
   \<and> dbcalls (snd (updateCompany req w)) = dbcalls w
   \<and> sent (snd (updateCompany req w)) = sent w
   \<and> (req_body req \<noteq> Undefined \<and> req_body req \<noteq> Null \<longrightarrow>
        updateCompany req w =
          (Inr (), w\<lparr>console := console w @ [ReferenceError ''params is not defined'']\<rparr>))
   \<and> (truthy company \<longrightarrow>
        updateCompany_respond company w =
          (Inr (), w\<lparr>sent := sent w @ [\<lparr>status = 404,
             json = Obj [(''message'', Str ''Company information updated''),
                         (''success'', Bool True)]\<rparr>]\<rparr>))"
proof -
  obtain e where e: "updateCompany_body req w = (Inl e, w)"
    using updateCompany_body_fails by blast
  then have u: "updateCompany req w = (Inr (), w\<lparr>console := console w @ [e]\<rparr>)"
    by (simp add: updateCompany_def try_catch_log)
  have r: "req_body req \<noteq> Undefined \<and> req_body req \<noteq> Null \<longrightarrow>
        updateCompany req w =
          (Inr (), w\<lparr>console := console w @ [ReferenceError ''params is not defined'']\<rparr>)"
    by (simp add: updateCompany_def try_catch_log updateCompany_body_readable)
  from u have x: "\<exists>e. updateCompany req w = (Inr (), w\<lparr>console := console w @ [e]\<rparr>)"
    by blast
  from u have k: "companies (snd (updateCompany req w)) = companies w"
    "dbcalls (snd (updateCompany req w)) = dbcalls w"
    "sent (snd (updateCompany req w)) = sent w"
    by simp_all
  from x k r updateCompany_respond_found [of company w] show ?thesis
    by blast
qed

text \<open>
  An update of the company c1.
\<close>

theorem updateCompany_never_reaches_store_witness:
  "req_body (request_of ''u1'' (Obj [(''name'', Str ''Acme Ltd'')]) ''c1'') \<noteq> Undefined
   \<and> req_body (request_of ''u1'' (Obj [(''name'', Str ''Acme Ltd'')]) ''c1'') \<noteq> Null
   \<and> updateCompany (request_of ''u1'' (Obj [(''name'', Str ''Acme Ltd'')]) ''c1'') acme_store =
       (Inr (), acme_store\<lparr>console := [ReferenceError ''params is not defined'']\<rparr>)
   \<and> companies (snd (updateCompany (request_of ''u1'' (Obj [(''name'', Str ''Acme Ltd'')]) ''c1'') acme_store)) = [acme]
   \<and> truthy (Obj acme)
   \<and> updateCompany_respond (Obj acme) acme_store =
       (Inr (), acme_store\<lparr>sent := [\<lparr>status = 404,
          json = Obj [(''message'', Str ''Company information updated''),
                      (''success'', Bool True)]\<rparr>]\<rparr>)"
proof -
  let ?r = "request_of ''u1'' (Obj [(''name'', Str ''Acme Ltd'')]) ''c1''"
  have b: "req_body ?r \<noteq> Undefined \<and> req_body ?r \<noteq> Null"
    by (simp add: request_of_def)
  have t: "truthy (Obj acme)" by simp
  have v: "companies acme_store = [acme]" "console acme_store = []" "sent acme_store = []"
    by (simp_all add: example_defs)
  from updateCompany_never_reaches_store [of ?r acme_store "Obj acme"] b t show ?thesis
    by (simp add: v)
qed

text \<open>
  Claim C10. When the lookup of getCompany succeeds, the controller ends having sent nothing:
  the lookup yields an array, every array is truthy, so the 404 branch is not taken, and there
  is no other response statement.
\<close>

theorem getCompany_no_success_response:
  assumes "fault w find_docs [Obj [(''userId'', req_id req)]] = None"
  shows "getCompany req w =
           (Inr (), w\<lparr>dbcalls := dbcalls w @ [(find_docs, [Obj [(''userId'', req_id req)]])]\<rparr>)
     \<and> sent (snd (getCompany req w)) = sent w
     \<and> (\<exists>ds. store_exec find_docs [Obj [(''userId'', req_id req)]] w = (Inr (Arr ds), w)
            \<and> truthy (Arr ds))"
  using assms
  by (simp add: getCompany_def try_catch_def getCompany_body_eq find_by_owner)

text \<open>
  A subject that owns no company.
\<close>

theorem getCompany_no_success_response_witness:
  "fault acme_store find_docs [Obj [(''userId'', req_id (request_of ''u3'' (Obj []) ''x''))]] = None
   \<and> getCompany (request_of ''u3'' (Obj []) ''x'') acme_store =
       (Inr (), acme_store\<lparr>dbcalls := [(find_docs, [Obj [(''userId'', Str ''u3'')]])]\<rparr>)
   \<and> sent (snd (getCompany (request_of ''u3'' (Obj []) ''x'') acme_store)) = []"
proof -
  have f: "fault acme_store find_docs [Obj [(''userId'', req_id (request_of ''u3'' (Obj []) ''x''))]] = None"
    by (simp add: example_defs)
  have v: "dbcalls acme_store = []" "sent acme_store = []" "req_id (request_of ''u3'' (Obj []) ''x'') = Str ''u3''"
    by (simp_all add: example_defs)
  from getCompany_no_success_response [OF f] f show ?thesis
    by (simp add: v)
qed

end
